theory Spec2Isabelle
  imports Complex_Main "HOL-Library.Multiset" "HOL-Library.Sublist"
begin

section \<open>JavaScript values used by the score code\<close>

text \<open>
  A score read from a response object is a JavaScript number or is absent
  (\<open>undefined\<close> or \<open>null\<close>).  A number is modelled as the real it denotes: comparing
  two doubles, or a double with 7 or 4, is exact.  Where the code subtracts, the
  rounding of the result is a parameter.  \<open>None\<close> stands for an absent value.
\<close>

type_synonym jsnum = "real option"

text \<open>\<open>x >= t\<close> for a positive constant \<open>t\<close>: \<open>undefined >= t\<close> compares \<open>NaN\<close> and
  \<open>null >= t\<close> compares 0, both false.\<close>

definition js_ge :: "jsnum \<Rightarrow> real \<Rightarrow> bool" where
  "js_ge x t = (case x of Some v \<Rightarrow> v \<ge> t | None \<Rightarrow> False)"

text \<open>Truthiness of a number-or-absent value: absent and 0 are falsy.\<close>

definition truthy :: "jsnum \<Rightarrow> bool" where
  "truthy x = (case x of Some v \<Rightarrow> v \<noteq> 0 | None \<Rightarrow> False)"

text \<open>\<open>a || b\<close> where \<open>b\<close> may itself be absent, and \<open>a || d\<close> with a numeric default.\<close>

definition js_or :: "jsnum \<Rightarrow> jsnum \<Rightarrow> jsnum" where
  "js_or a b = (if truthy a then a else b)"

definition or_num :: "jsnum \<Rightarrow> real \<Rightarrow> real" where
  "or_num a d = (case a of Some v \<Rightarrow> if v \<noteq> 0 then v else d | None \<Rightarrow> d)"

text \<open>Truthiness of a string-or-absent value: absent and the empty string are falsy.\<close>

definition truthy_str :: "string option \<Rightarrow> bool" where
  "truthy_str x = (case x of Some s \<Rightarrow> s \<noteq> [] | None \<Rightarrow> False)"

section \<open>Risk levels and colours\<close>

text \<open>\<open>getRiskLevel\<close> of Comparison.js and of Analysis.js (the two copies are the same
  text), and \<open>getRiskColor\<close> likewise.\<close>

definition getRiskLevel :: "jsnum \<Rightarrow> string" where
  "getRiskLevel score =
     (if js_ge score 7 then ''high''
      else if js_ge score 4 then ''medium''
      else ''low'')"


section \<open>Dashboard and history\<close>

record history_entry =
  domain :: "string option"
  risk_score :: jsnum

record distribution =
  high :: nat
  medium :: nat
  low :: nat

text \<open>The body of the \<open>forEach\<close> callback of \<open>calculateRiskDistribution\<close>.\<close>

definition countRisk :: "distribution \<Rightarrow> 'a history_entry_scheme \<Rightarrow> distribution" where
  "countRisk distribution analysis =
     (let risk = risk_score analysis in
      if js_ge risk 7 then distribution\<lparr>high := high distribution + 1\<rparr>
      else if js_ge risk 4 then distribution\<lparr>medium := medium distribution + 1\<rparr>
      else distribution\<lparr>low := low distribution + 1\<rparr>)"

text \<open>\<open>None\<close> is an argument that is not an array.\<close>

definition calculateRiskDistribution ::
  "'a history_entry_scheme list option \<Rightarrow> distribution" where
  "calculateRiskDistribution analyses =
     (case analyses of
        None \<Rightarrow> \<lparr>high = 0, medium = 0, low = 0\<rparr>
      | Some as \<Rightarrow> foldl countRisk \<lparr>high = 0, medium = 0, low = 0\<rparr> as)"

text \<open>The class of the risk badge of a recent analysis on the dashboard, and of an entry
  of the history list.\<close>

definition dashboardBadge :: "'a history_entry_scheme \<Rightarrow> string" where
  "dashboardBadge analysis =
     (if js_ge (risk_score analysis) 7 then ''high''
      else if js_ge (risk_score analysis) 4 then ''medium'' else ''low'')"

definition historyBadge :: "'a history_entry_scheme \<Rightarrow> string" where
  "historyBadge analysis =
     (if js_ge (risk_score analysis) 7 then ''high''
      else if js_ge (risk_score analysis) 4 then ''medium'' else ''low'')"

section \<open>Score records of a response\<close>

text \<open>
  An analysis or comparison entry of a response carries its scores either in a nested
  \<open>risk_scores\<close> object or as fields of its own; every field may be absent.
\<close>

record scores =
  data_risk :: jsnum
  user_rights_score :: jsnum
  readability_score :: jsnum
  overall_risk :: jsnum
  termination_risk :: jsnum

record scored = scores +
  risk_scores :: "scores option"
  risk_level :: "string option"

record analysis = scored +
  summary :: "string option"
  data_collection :: "string list option"
  user_rights :: "string list option"
  recommendations :: "string list option"

record comp = scored +
  company :: "string option"
  source :: "string option"

text \<open>A template literal: its text and the numbers interpolated into it.\<close>

datatype piece = Str string | Num real

type_synonym template = "piece list"

record comparison_data =
  comparisons :: "comp list option"
  insights :: "template list option"
  comparison_type :: "string option"

section \<open>Comparison.js\<close>

subsection \<open>Insights of a URL comparison\<close>

text \<open>\<open>analysis?.risk_scores?.f || analysis?.f || 0\<close> for a score field \<open>f\<close>.\<close>

definition scoreOf ::
  "('a scored_scheme \<Rightarrow> jsnum) \<Rightarrow> (scores \<Rightarrow> jsnum) \<Rightarrow> 'a scored_scheme option \<Rightarrow> real" where
  "scoreOf f g analysis =
     or_num (js_or (Option.bind (Option.bind analysis risk_scores) g) (Option.bind analysis f)) 0"

definition generateUrlInsights ::
  "'a scored_scheme option \<Rightarrow> 'b scored_scheme option \<Rightarrow> template list" where
  "generateUrlInsights analysis1 analysis2 =
     (let risk1 = scoreOf overall_risk overall_risk analysis1;
          risk2 = scoreOf overall_risk overall_risk analysis2;
          insights =
            (if risk1 > risk2 then
               [[Str ''URL 1 has higher overall risk than URL 2 ('', Num risk1, Str '' vs '',
                 Num risk2, Str '')'']]
             else if risk2 > risk1 then
               [[Str ''URL 2 has higher overall risk than URL 1 ('', Num risk2, Str '' vs '',
                 Num risk1, Str '')'']]
             else [[Str ''Both URLs have similar overall risk levels'']]);
          dataRisk1 = scoreOf data_risk data_risk analysis1;
          dataRisk2 = scoreOf data_risk data_risk analysis2
      in if dataRisk1 > dataRisk2 then
           insights @ [[Str ''URL 1 collects more user data than URL 2'']]
         else if dataRisk2 > dataRisk1 then
           insights @ [[Str ''URL 2 collects more user data than URL 1'']]
         else insights)"

subsection \<open>Formatting a comparison\<close>

text \<open>The callback of \<open>comparisons?.map\<close> in \<open>formatComparisonData\<close>: the object literal
  built when \<open>comp.risk_scores\<close> is absent has four fields and no \<open>termination_risk\<close>.\<close>

definition formatComp :: "comp \<Rightarrow> comp" where
  "formatComp c =
     c\<lparr>risk_scores := Some (case risk_scores c of
          Some rs \<Rightarrow> rs
        | None \<Rightarrow>
            \<lparr>data_risk = Some (or_num (data_risk c) 0),
             user_rights_score = Some (or_num (user_rights_score c) 0),
             readability_score = Some (or_num (readability_score c) 0),
             overall_risk = Some (or_num (overall_risk c) 0),
             termination_risk = None\<rparr>),
       risk_level := Some (case risk_level c of
          Some l \<Rightarrow>
            if l \<noteq> [] then l
            else getRiskLevel (Some (or_num
                   (js_or (overall_risk c) (Option.bind (risk_scores c) overall_risk)) 0))
        | None \<Rightarrow>
            getRiskLevel (Some (or_num
              (js_or (overall_risk c) (Option.bind (risk_scores c) overall_risk)) 0)))\<rparr>"

definition formatComparisonData :: "comparison_data option \<Rightarrow> comparison_data option" where
  "formatComparisonData comparisonData =
     (case comparisonData of
        None \<Rightarrow> None
      | Some d \<Rightarrow>
          Some (d\<lparr>comparisons := Some (case comparisons d of
                     Some cs \<Rightarrow> map formatComp cs
                   | None \<Rightarrow> [])\<rparr>))"

text \<open>The two entries and the insights that \<open>compareUrls\<close> builds from the analyses of
  the two responses.\<close>

definition urlEntry :: "string \<Rightarrow> string \<Rightarrow> 'a scored_scheme option \<Rightarrow> comp" where
  "urlEntry label url a =
     \<lparr>data_risk = None, user_rights_score = None, readability_score = None,
      overall_risk = None, termination_risk = None,
      risk_scores = Some (case Option.bind a risk_scores of
          Some rs \<Rightarrow> rs
        | None \<Rightarrow>
            \<lparr>data_risk = Some (or_num (Option.bind a data_risk) 0),
             user_rights_score = Some (or_num (Option.bind a user_rights_score) 0),
             readability_score = Some (or_num (Option.bind a readability_score) 0),
             overall_risk = Some (or_num (Option.bind a overall_risk) 0),
             termination_risk = None\<rparr>),
      risk_level = Some (getRiskLevel (Some (or_num
          (js_or (Option.bind a overall_risk)
                 (Option.bind (Option.bind a risk_scores) overall_risk)) 0))),
      company = Some label, source = Some url\<rparr>"

definition urlComparisonData ::
  "string \<Rightarrow> string \<Rightarrow> 'a scored_scheme option \<Rightarrow> 'b scored_scheme option \<Rightarrow> comparison_data" where
  "urlComparisonData customUrl1 customUrl2 analysis1 analysis2 =
     \<lparr>comparisons = Some [urlEntry ''Custom URL 1'' customUrl1 analysis1,
                          urlEntry ''Custom URL 2'' customUrl2 analysis2],
      insights = Some (generateUrlInsights analysis1 analysis2),
      comparison_type = Some ''url''\<rparr>"

subsection \<open>Cards of a comparison entry\<close>

text \<open>
  The class names computed for the data-risk, user-rights and readability values of
  a comparison card.  The difference \<open>10 - x\<close> of two JavaScript numbers is the exact
  difference rounded to a double; the rounding is the parameter \<open>rnd\<close> of every
  definition that subtracts.
\<close>

definition comparisonDataRiskClass :: "'a scored_scheme \<Rightarrow> string" where
  "comparisonDataRiskClass c = getRiskLevel (Option.bind (risk_scores c) data_risk)"



subsection \<open>Selecting companies and running a comparison\<close>

record 'i company_entry =
  id_company :: 'i
  name :: "string option"
  url :: "string option"

record 'i comparison_state =
  companies :: "'i company_entry list"
  selectedCompanies :: "'i list"
  comparison :: "comparison_data option"
  loading :: bool
  error :: template
  customUrl1 :: string
  customUrl2 :: string
  urlComparison :: "comparison_data option"
  urlLoading :: bool

text \<open>What a handler does besides updating the state: an alert, or the POST request to
  \<open>/api/compare\<close> with the company names.\<close>

datatype effect = Alert string | PostCompare "string option list"

text \<open>The outcome of the request: \<open>fetch\<close> or \<open>json\<close> throws, the status is not ok, or
  the parsed body.\<close>

datatype 'a response = Throws string | NotOk nat string | Json 'a

definition initialState :: "'i comparison_state" where
  "initialState =
     \<lparr>companies = [], selectedCompanies = [], comparison = None, loading = False,
      error = [], customUrl1 = [], customUrl2 = [], urlComparison = None,
      urlLoading = False\<rparr>"

definition toggleCompany ::
  "'i \<Rightarrow> 'i comparison_state \<Rightarrow> 'i comparison_state \<times> effect list" where
  "toggleCompany companyId st =
     (let prev = selectedCompanies st in
      if companyId \<in> set prev then
        (st\<lparr>selectedCompanies := filter (\<lambda>i. i \<noteq> companyId) prev\<rparr>, [])
      else if length prev \<ge> 4 then
        (st, [Alert ''Maximum 4 companies can be compared at once''])
      else (st\<lparr>selectedCompanies := prev @ [companyId]\<rparr>, []))"

text \<open>The state after a sequence of clicks on company cards.\<close>

definition toggleAll :: "'i list \<Rightarrow> 'i comparison_state \<Rightarrow> 'i comparison_state" where
  "toggleAll ids st = foldl (\<lambda>s i. fst (toggleCompany i s)) st ids"

text \<open>The names sent: an id with no company is dropped (\<open>null\<close>), a company without a
  name stays in the list as \<open>undefined\<close>.\<close>

definition companyNames :: "'i comparison_state \<Rightarrow> string option list" where
  "companyNames st =
     List.map_filter
       (\<lambda>i. map_option name (find (\<lambda>c. id_company c = i) (companies st)))
       (selectedCompanies st)"

definition runComparison ::
  "(string option list \<Rightarrow> comparison_data option response) \<Rightarrow> 'i comparison_state \<Rightarrow>
     'i comparison_state \<times> effect list" where
  "runComparison api st =
     (if length (selectedCompanies st) < 2 then
        (st, [Alert ''Please select at least 2 companies to compare''])
      else
        let st1 = st\<lparr>loading := True, comparison := None, urlComparison := None, error := []\<rparr>;
            names = companyNames st
        in case api names of
             Throws msg \<Rightarrow>
               (st1\<lparr>error := [Str ''Comparison failed: '', Str msg], loading := False\<rparr>,
                [PostCompare names])
           | NotOk status errorText \<Rightarrow>
               (st1\<lparr>error := [Str ''Comparison failed: '', Str ''Comparison failed: '',
                               Num (real status), Str '' - '', Str errorText],
                     loading := False\<rparr>,
                [PostCompare names])
           | Json result \<Rightarrow>
               (st1\<lparr>comparison := formatComparisonData result, loading := False\<rparr>,
                [PostCompare names]))"

section \<open>Analysis.js\<close>

subsection \<open>Reading a score out of a table line\<close>

definition is_digit :: "char \<Rightarrow> bool" where
  "is_digit c = (c \<in> set ''0123456789'')"

definition digit_val :: "char \<Rightarrow> nat" where
  "digit_val c = of_char c - 48"

definition digits_val :: "string \<Rightarrow> nat" where
  "digits_val ds = foldl (\<lambda>n c. 10 * n + digit_val c) 0 ds"

text \<open>
  The regular expression \<open>(\d+(\.\d+)?)\/10\<close> tried at the start of a string; the result is
  its first group.  The digits of \<open>\d+\<close> are followed by a character that is not a
  digit, so a match takes the whole run of digits: after a shorter run neither \<open>.\<close> nor
  \<open>/\<close> follows.  The same holds for the digits of the fraction.
\<close>

definition match_here :: "string \<Rightarrow> string option" where
  "match_here s =
     (let ds = takeWhile is_digit s; r = dropWhile is_digit s in
      if ds = [] then None
      else case r of
             c # r' \<Rightarrow>
               if c = CHR ''.'' then
                 (let fs = takeWhile is_digit r'; r'' = dropWhile is_digit r' in
                  if fs \<noteq> [] \<and> prefix ''/10'' r'' then Some (ds @ ''.'' @ fs) else None)
               else if prefix ''/10'' r then Some ds else None
           | [] \<Rightarrow> None)"

text \<open>\<open>line.match\<close>: the leftmost position where the expression matches.\<close>

fun match_score :: "string \<Rightarrow> string option" where
  "match_score [] = None"
| "match_score (c # cs) =
     (case match_here (c # cs) of Some g \<Rightarrow> Some g | None \<Rightarrow> match_score cs)"

text \<open>\<open>parseFloat\<close> on an unsigned decimal, the only strings it is given here; the value
  is the exact decimal.\<close>

definition parseFloat :: "string \<Rightarrow> real" where
  "parseFloat s =
     (let ip = takeWhile is_digit s; r = dropWhile is_digit s in
      case r of
        c # f \<Rightarrow>
          if c = CHR ''.'' then
            (let fs = takeWhile is_digit f
             in real (digits_val ip) + real (digits_val fs) / 10 ^ length fs)
          else real (digits_val ip)
      | [] \<Rightarrow> real (digits_val ip))"

definition extractScore :: "string \<Rightarrow> real" where
  "extractScore line = (case match_score line of Some g \<Rightarrow> parseFloat g | None \<Rightarrow> 0)"

subsection \<open>Parsing a table and formatting an analysis\<close>

fun split_nl :: "string \<Rightarrow> string list" where
  "split_nl [] = [[]]"
| "split_nl (c # cs) =
     (if c = CHR 0x0A then [] # split_nl cs
      else case split_nl cs of l # ls \<Rightarrow> (c # l) # ls | [] \<Rightarrow> [[c]])"

text \<open>The white space that \<open>trim\<close> removes, among the ASCII characters.  The filter
  only drops blank lines, which carry no label and would set no score.\<close>

definition is_space :: "char \<Rightarrow> bool" where
  "is_space c = (c \<in> {CHR 0x09, CHR 0x0A, CHR 0x0B, CHR 0x0C, CHR 0x0D, CHR '' ''})"

definition trim :: "string \<Rightarrow> string" where
  "trim s = rev (dropWhile is_space (rev (dropWhile is_space s)))"

text \<open>\<open>line.includes(sub)\<close>.\<close>

fun includes_str :: "string \<Rightarrow> string \<Rightarrow> bool" where
  "includes_str [] sub = (sub = [])"
| "includes_str (c # cs) sub = (prefix sub (c # cs) \<or> includes_str cs sub)"

text \<open>The callback of \<open>lines.forEach\<close>: a later line overwrites the field an earlier one
  has set.\<close>

definition readLine :: "scores \<Rightarrow> string \<Rightarrow> scores" where
  "readLine riskScores line =
     (if includes_str line ''Data Risk:'' then riskScores\<lparr>data_risk := Some (extractScore line)\<rparr>
      else if includes_str line ''User Rights:'' then
        riskScores\<lparr>user_rights_score := Some (extractScore line)\<rparr>
      else if includes_str line ''Readability:'' then
        riskScores\<lparr>readability_score := Some (extractScore line)\<rparr>
      else if includes_str line ''Overall Risk:'' then
        riskScores\<lparr>overall_risk := Some (extractScore line)\<rparr>
      else riskScores)"

text \<open>No call in the \<open>try\<close> block throws on a string, so the \<open>catch\<close> branch is never
  taken.\<close>

definition parseTableData :: "string \<Rightarrow> analysis" where
  "parseTableData tableString =
     (let lines = filter (\<lambda>line. trim line \<noteq> []) (split_nl tableString);
          riskScores = foldl readLine
            \<lparr>data_risk = None, user_rights_score = None, readability_score = None,
             overall_risk = None, termination_risk = None\<rparr> lines
      in \<lparr>data_risk = None, user_rights_score = None, readability_score = None,
          overall_risk = None, termination_risk = None,
          risk_scores = Some riskScores,
          risk_level = Some (getRiskLevel (Some (or_num (overall_risk riskScores) 0))),
          summary = Some ''Analysis completed successfully'',
          data_collection = Some [''Data collection practices analyzed''],
          user_rights = Some [''User rights assessment completed''],
          recommendations = Some [''Review the detailed risk scores above'']\<rparr>)"

text \<open>The \<open>analysis\<close> of a response: absent, a table as a string, or an object.\<close>

datatype analysis_data = Absent | Table string | Object analysis

definition formatAnalysisData :: "analysis_data \<Rightarrow> analysis option" where
  "formatAnalysisData analysisData =
     (case analysisData of
        Absent \<Rightarrow> None
      | Table s \<Rightarrow> if s = [] then None else Some (parseTableData s)
      | Object a \<Rightarrow>
          Some (a\<lparr>risk_scores := Some (case risk_scores a of
                    Some rs \<Rightarrow> rs
                  | None \<Rightarrow>
                      \<lparr>data_risk = Some (or_num (data_risk a) 0),
                       user_rights_score = Some (or_num (user_rights_score a) 0),
                       readability_score = Some (or_num (readability_score a) 0),
                       overall_risk = Some (or_num (overall_risk a) 0),
                       termination_risk = Some (or_num (termination_risk a) 0)\<rparr>),
                 risk_level := Some (case risk_level a of
                    Some l \<Rightarrow>
                      if l \<noteq> [] then l
                      else getRiskLevel (Some (or_num
                             (js_or (overall_risk a) (Option.bind (risk_scores a) overall_risk)) 0))
                  | None \<Rightarrow>
                      getRiskLevel (Some (or_num
                        (js_or (overall_risk a) (Option.bind (risk_scores a) overall_risk)) 0)))\<rparr>))"

subsection \<open>Cards and chart of an analysis\<close>

definition analysisDataRiskClass :: "'a scored_scheme \<Rightarrow> string" where
  "analysisDataRiskClass a = getRiskLevel (Option.bind (risk_scores a) data_risk)"





section \<open>Profile.js\<close>

record userProfile =
  riskTolerance :: string
  dataConcerns :: "string list"
  location :: string

definition toggleConcern :: "string \<Rightarrow> userProfile \<Rightarrow> userProfile" where
  "toggleConcern concern prev =
     prev\<lparr>dataConcerns :=
       (if concern \<in> set (dataConcerns prev)
        then filter (\<lambda>c. c \<noteq> concern) (dataConcerns prev)
        else dataConcerns prev @ [concern])\<rparr>"

text \<open>The profile that App.js starts with.\<close>

definition defaultProfile :: userProfile where
  "defaultProfile =
     \<lparr>riskTolerance = ''medium'', dataConcerns = [''data_collection'', ''data_sharing''],
      location = ''US''\<rparr>"


section \<open>Properties\<close>

subsection \<open>Risk-level bucketing\<close>

lemma getRiskLevel_num:
  "getRiskLevel (Some s) = (if s \<ge> 7 then ''high'' else if s \<ge> 4 then ''medium'' else ''low'')"
  by (simp add: getRiskLevel_def js_ge_def)

lemma countRisk_fields:
  "high (countRisk d a) = high d + (if getRiskLevel (risk_score a) = ''high'' then 1 else 0)"
  "medium (countRisk d a) = medium d + (if getRiskLevel (risk_score a) = ''medium'' then 1 else 0)"
  "low (countRisk d a) = low d + (if getRiskLevel (risk_score a) = ''low'' then 1 else 0)"
  by (simp_all add: countRisk_def getRiskLevel_def)

lemma foldl_countRisk:
  "foldl countRisk d as =
     \<lparr>high = high d + length (filter (\<lambda>a. getRiskLevel (risk_score a) = ''high'') as),
      medium = medium d + length (filter (\<lambda>a. getRiskLevel (risk_score a) = ''medium'') as),
      low = low d + length (filter (\<lambda>a. getRiskLevel (risk_score a) = ''low'') as)\<rparr>"
proof (induction as arbitrary: d)
  case Nil
  show ?case by simp
next
  case (Cons a as)
  have "foldl countRisk d (a # as) = foldl countRisk (countRisk d a) as"
    by simp
  also note Cons.IH [of "countRisk d a"]
  finally show ?case
    by (simp add: countRisk_fields)
qed

text \<open>
  C1.  For a numeric score \<open>s\<close> the level is \<open>high\<close> exactly when \<open>s \<ge> 7\<close>, \<open>medium\<close>
  exactly when \<open>4 \<le> s < 7\<close> and \<open>low\<close> exactly when \<open>s < 4\<close>; the lower bound of each
  bucket is inclusive (7 is high, 6.999 medium, 4 medium, 3.999 low).  The dashboard's
  risk distribution counts the entries of each level, the badges of the dashboard and
  of the history list carry the level of the entry's score, and the risk level that a
  comparison gives an entry is the level of its overall risk.
\<close>

theorem risk_level_bucketing:
  "(getRiskLevel (Some s) = ''high'' \<longleftrightarrow> s \<ge> 7) \<and>
   (getRiskLevel (Some s) = ''medium'' \<longleftrightarrow> 4 \<le> s \<and> s < 7) \<and>
   (getRiskLevel (Some s) = ''low'' \<longleftrightarrow> s < 4) \<and>
   getRiskLevel (Some 7.0) = ''high'' \<and>
   getRiskLevel (Some 6.999) = ''medium'' \<and>
   getRiskLevel (Some 4.0) = ''medium'' \<and>
   getRiskLevel (Some 3.999) = ''low'' \<and>
   calculateRiskDistribution (Some as) =
     \<lparr>high = length (filter (\<lambda>a. getRiskLevel (risk_score a) = ''high'') as),
      medium = length (filter (\<lambda>a. getRiskLevel (risk_score a) = ''medium'') as),
      low = length (filter (\<lambda>a. getRiskLevel (risk_score a) = ''low'') as)\<rparr> \<and>
   dashboardBadge a = getRiskLevel (risk_score a) \<and>
   historyBadge a = getRiskLevel (risk_score a) \<and>
   risk_level (formatComp (c\<lparr>risk_level := None\<rparr>)) =
     Some (getRiskLevel (Some (or_num
       (js_or (overall_risk c) (Option.bind (risk_scores c) overall_risk)) 0))) \<and>
   risk_level (urlEntry label u an) =
     Some (getRiskLevel (Some (or_num
       (js_or (Option.bind an overall_risk)
              (Option.bind (Option.bind an risk_scores) overall_risk)) 0)))"
proof -
  have b: "(getRiskLevel (Some s) = ''high'' \<longleftrightarrow> s \<ge> 7) \<and>
      (getRiskLevel (Some s) = ''medium'' \<longleftrightarrow> 4 \<le> s \<and> s < 7) \<and>
      (getRiskLevel (Some s) = ''low'' \<longleftrightarrow> s < 4)"
    by (auto simp: getRiskLevel_num)
  have e: "getRiskLevel (Some 7.0) = ''high'' \<and> getRiskLevel (Some 6.999) = ''medium'' \<and>
      getRiskLevel (Some 4.0) = ''medium'' \<and> getRiskLevel (Some 3.999) = ''low''"
    by (simp add: getRiskLevel_num)
  have d: "calculateRiskDistribution (Some as) =
     \<lparr>high = length (filter (\<lambda>a. getRiskLevel (risk_score a) = ''high'') as),
      medium = length (filter (\<lambda>a. getRiskLevel (risk_score a) = ''medium'') as),
      low = length (filter (\<lambda>a. getRiskLevel (risk_score a) = ''low'') as)\<rparr>"
    by (simp add: calculateRiskDistribution_def foldl_countRisk)
  have g: "dashboardBadge a = getRiskLevel (risk_score a) \<and>
      historyBadge a = getRiskLevel (risk_score a)"
    by (simp add: dashboardBadge_def historyBadge_def getRiskLevel_def)
  have f: "risk_level (formatComp (c\<lparr>risk_level := None\<rparr>)) =
      Some (getRiskLevel (Some (or_num
        (js_or (overall_risk c) (Option.bind (risk_scores c) overall_risk)) 0))) \<and>
    risk_level (urlEntry label u an) =
      Some (getRiskLevel (Some (or_num
        (js_or (Option.bind an overall_risk)
               (Option.bind (Option.bind an risk_scores) overall_risk)) 0)))"
    by (simp add: formatComp_def urlEntry_def)
  from b e d g f show ?thesis by blast
qed


subsection \<open>Insights of a URL comparison\<close>

text \<open>The list built by \<open>generateUrlInsights\<close>: one insight on the overall risk, then at
  most one on the data risk.\<close>

lemma generateUrlInsights_shape:
  "generateUrlInsights A B =
     (let a = scoreOf overall_risk overall_risk A; b = scoreOf overall_risk overall_risk B;
          da = scoreOf data_risk data_risk A; db = scoreOf data_risk data_risk B
      in (if a > b then
            [Str ''URL 1 has higher overall risk than URL 2 ('', Num a, Str '' vs '', Num b, Str '')'']
          else if b > a then
            [Str ''URL 2 has higher overall risk than URL 1 ('', Num b, Str '' vs '', Num a, Str '')'']
          else [Str ''Both URLs have similar overall risk levels''])
         # (if da > db then [[Str ''URL 1 collects more user data than URL 2'']]
            else if db > da then [[Str ''URL 2 collects more user data than URL 1'']]
            else []))"
  by (simp add: generateUrlInsights_def Let_def)

text \<open>
  C2, as the code has it.  The overall risk of an analysis is read as
  \<open>risk_scores.overall_risk || overall_risk || 0\<close>.  The first insight says that URL 1
  has the higher overall risk exactly when its overall risk is greater than that of
  URL 2, that URL 2 has the higher one exactly when its overall risk is greater, and that
  the two have similar overall risk levels exactly when the two values are equal: the
  comparison is strict, with no tolerance.
\<close>

theorem overall_insight_strict:
  "(take 1 (generateUrlInsights A B) =
      [[Str ''URL 1 has higher overall risk than URL 2 ('',
        Num (scoreOf overall_risk overall_risk A), Str '' vs '',
        Num (scoreOf overall_risk overall_risk B), Str '')'']]
     \<longleftrightarrow> scoreOf overall_risk overall_risk A > scoreOf overall_risk overall_risk B) \<and>
   (take 1 (generateUrlInsights A B) =
      [[Str ''URL 2 has higher overall risk than URL 1 ('',
        Num (scoreOf overall_risk overall_risk B), Str '' vs '',
        Num (scoreOf overall_risk overall_risk A), Str '')'']]
     \<longleftrightarrow> scoreOf overall_risk overall_risk B > scoreOf overall_risk overall_risk A) \<and>
   (take 1 (generateUrlInsights A B) = [[Str ''Both URLs have similar overall risk levels'']]
     \<longleftrightarrow> scoreOf overall_risk overall_risk A = scoreOf overall_risk overall_risk B)"
  by (auto simp: generateUrlInsights_shape Let_def)

text \<open>
  C2 as stated fails: with overall risks 5.02 and 5 the difference is within 0.05, yet
  the insight says that URL 1 has the higher overall risk.
\<close>

theorem overall_insight_epsilon_counterexample:
  "take 1 (generateUrlInsights
      (Some \<lparr>data_risk = None, user_rights_score = None, readability_score = None,
             overall_risk = Some 5.02, termination_risk = None,
             risk_scores = None, risk_level = None\<rparr>)
      (Some \<lparr>data_risk = None, user_rights_score = None, readability_score = None,
             overall_risk = Some 5, termination_risk = None,
             risk_scores = None, risk_level = None\<rparr>))
     = [[Str ''URL 1 has higher overall risk than URL 2 ('', Num 5.02, Str '' vs '', Num 5,
         Str '')'']] \<and>
   \<not> ((5.02::real) > 5 + 0.05) \<and> \<bar>(5.02::real) - 5\<bar> \<le> 0.05"
  by (simp add: generateUrlInsights_shape scoreOf_def js_or_def or_num_def truthy_def)

text \<open>
  C5, as the code has it.  The insight list starts with the insight on the overall risk
  (one of its three forms); it is followed by one insight on the data risk when the two
  data risks differ, and by nothing otherwise.  There is no insight on user rights,
  readability or termination.
\<close>

theorem insight_order:
  "\<exists>ov. generateUrlInsights A B =
      ov # (if scoreOf data_risk data_risk A > scoreOf data_risk data_risk B
            then [[Str ''URL 1 collects more user data than URL 2'']]
            else if scoreOf data_risk data_risk B > scoreOf data_risk data_risk A
            then [[Str ''URL 2 collects more user data than URL 1'']]
            else []) \<and>
     (ov = [Str ''Both URLs have similar overall risk levels''] \<or>
      (\<exists>x y. ov = [Str ''URL 1 has higher overall risk than URL 2 ('', Num x, Str '' vs '',
                     Num y, Str '')'']) \<or>
      (\<exists>x y. ov = [Str ''URL 2 has higher overall risk than URL 1 ('', Num x, Str '' vs '',
                     Num y, Str '')'']))"
  by (simp add: generateUrlInsights_shape Let_def)

text \<open>
  C5 as stated fails: two analyses that differ in all five dimensions get two insights,
  on the overall risk and on the data risk.
\<close>

theorem insight_five_dimensions_counterexample:
  "generateUrlInsights
      (Some \<lparr>data_risk = None, user_rights_score = None, readability_score = None,
             overall_risk = None, termination_risk = None,
             risk_scores = Some \<lparr>data_risk = Some 8, user_rights_score = Some 2,
               readability_score = Some 7, overall_risk = Some 8.2, termination_risk = Some 6\<rparr>,
             risk_level = None\<rparr>)
      (Some \<lparr>data_risk = None, user_rights_score = None, readability_score = None,
             overall_risk = None, termination_risk = None,
             risk_scores = Some \<lparr>data_risk = Some 3, user_rights_score = Some 9,
               readability_score = Some 4, overall_risk = Some 3.1, termination_risk = Some 1\<rparr>,
             risk_level = None\<rparr>)
     = [[Str ''URL 1 has higher overall risk than URL 2 ('', Num 8.2, Str '' vs '', Num 3.1,
         Str '')''],
        [Str ''URL 1 collects more user data than URL 2'']]"
  by (simp add: generateUrlInsights_shape scoreOf_def js_or_def or_num_def truthy_def)

text \<open>
  C6.  When the overall risks of the two analyses differ, the first insight names the
  side with the higher overall risk first and lists the two values in parentheses, the
  higher one first.
\<close>

theorem higher_risk_named_first:
  "(scoreOf overall_risk overall_risk A > scoreOf overall_risk overall_risk B \<longrightarrow>
      take 1 (generateUrlInsights A B) =
        [[Str ''URL 1 has higher overall risk than URL 2 ('',
          Num (scoreOf overall_risk overall_risk A), Str '' vs '',
          Num (scoreOf overall_risk overall_risk B), Str '')'']]) \<and>
   (scoreOf overall_risk overall_risk B > scoreOf overall_risk overall_risk A \<longrightarrow>
      take 1 (generateUrlInsights A B) =
        [[Str ''URL 2 has higher overall risk than URL 1 ('',
          Num (scoreOf overall_risk overall_risk B), Str '' vs '',
          Num (scoreOf overall_risk overall_risk A), Str '')'']])"
  by (simp add: generateUrlInsights_shape Let_def)


theorem higher_risk_named_first_witness:
  "(8.2::real) > 3.1 \<and>
   urlComparisonData ''https://a.example/terms'' ''https://b.example/terms''
      (Some \<lparr>data_risk = None, user_rights_score = None, readability_score = None,
             overall_risk = None, termination_risk = None,
             risk_scores = Some \<lparr>data_risk = Some 8, user_rights_score = Some 2,
               readability_score = Some 7, overall_risk = Some 8.2, termination_risk = Some 6\<rparr>,
             risk_level = None\<rparr>)
      (Some \<lparr>data_risk = None, user_rights_score = None, readability_score = None,
             overall_risk = None, termination_risk = None,
             risk_scores = Some \<lparr>data_risk = Some 3, user_rights_score = Some 9,
               readability_score = Some 4, overall_risk = Some 3.1, termination_risk = Some 1\<rparr>,
             risk_level = None\<rparr>)
     = \<lparr>comparisons = Some
          [\<lparr>data_risk = None, user_rights_score = None, readability_score = None,
            overall_risk = None, termination_risk = None,
            risk_scores = Some \<lparr>data_risk = Some 8, user_rights_score = Some 2,
              readability_score = Some 7, overall_risk = Some 8.2, termination_risk = Some 6\<rparr>,
            risk_level = Some ''high'',
            company = Some ''Custom URL 1'', source = Some ''https://a.example/terms''\<rparr>,
           \<lparr>data_risk = None, user_rights_score = None, readability_score = None,
            overall_risk = None, termination_risk = None,
            risk_scores = Some \<lparr>data_risk = Some 3, user_rights_score = Some 9,
              readability_score = Some 4, overall_risk = Some 3.1, termination_risk = Some 1\<rparr>,
            risk_level = Some ''low'',
            company = Some ''Custom URL 2'', source = Some ''https://b.example/terms''\<rparr>],
        insights = Some
          [[Str ''URL 1 has higher overall risk than URL 2 ('', Num 8.2, Str '' vs '', Num 3.1,
            Str '')''],
           [Str ''URL 1 collects more user data than URL 2'']],
        comparison_type = Some ''url''\<rparr>"
  using higher_risk_named_first
    [where A = "Some \<lparr>data_risk = None, user_rights_score = None, readability_score = None,
             overall_risk = None, termination_risk = None,
             risk_scores = Some \<lparr>data_risk = Some 8, user_rights_score = Some 2,
               readability_score = Some 7, overall_risk = Some 8.2, termination_risk = Some 6\<rparr>,
             risk_level = None\<rparr>"
       and B = "Some \<lparr>data_risk = None, user_rights_score = None, readability_score = None,
             overall_risk = None, termination_risk = None,
             risk_scores = Some \<lparr>data_risk = Some 3, user_rights_score = Some 9,
               readability_score = Some 4, overall_risk = Some 3.1, termination_risk = Some 1\<rparr>,
             risk_level = None\<rparr>"]
  by (simp add: urlComparisonData_def urlEntry_def generateUrlInsights_shape scoreOf_def
      js_or_def or_num_def truthy_def getRiskLevel_num)

subsection \<open>Missing scores\<close>

lemma or_num_zero: "or_num x 0 = (case x of Some v \<Rightarrow> v | None \<Rightarrow> 0)"
  by (simp add: or_num_def split: option.split)

text \<open>
  C3, as the code has it.  When the object of a response has no \<open>risk_scores\<close> object,
  \<open>formatAnalysisData\<close> builds one in which all five scores are present, and the
  formatting of a comparison entry builds one in which \<open>data_risk\<close>, \<open>user_rights_score\<close>,
  \<open>readability_score\<close> and \<open>overall_risk\<close> are present; each is the field of the object
  itself when that is present, and 0 when it is missing.  A \<open>risk_scores\<close> object of
  the response is kept as it is.
\<close>

theorem missing_scores_default_zero:
  "(\<exists>r. formatAnalysisData (Object (a\<lparr>risk_scores := None\<rparr>)) = Some r \<and>
        risk_scores r =
          Some \<lparr>data_risk = Some (case data_risk a of Some v \<Rightarrow> v | None \<Rightarrow> 0),
                user_rights_score = Some (case user_rights_score a of Some v \<Rightarrow> v | None \<Rightarrow> 0),
                readability_score = Some (case readability_score a of Some v \<Rightarrow> v | None \<Rightarrow> 0),
                overall_risk = Some (case overall_risk a of Some v \<Rightarrow> v | None \<Rightarrow> 0),
                termination_risk = Some (case termination_risk a of Some v \<Rightarrow> v | None \<Rightarrow> 0)\<rparr>) \<and>
   (\<exists>r. formatAnalysisData (Object (a\<lparr>risk_scores := Some rs\<rparr>)) = Some r \<and>
        risk_scores r = Some rs) \<and>
   (\<exists>rs'. risk_scores (formatComp (c\<lparr>risk_scores := None\<rparr>)) = Some rs' \<and>
        data_risk rs' = Some (case data_risk c of Some v \<Rightarrow> v | None \<Rightarrow> 0) \<and>
        user_rights_score rs' = Some (case user_rights_score c of Some v \<Rightarrow> v | None \<Rightarrow> 0) \<and>
        readability_score rs' = Some (case readability_score c of Some v \<Rightarrow> v | None \<Rightarrow> 0) \<and>
        overall_risk rs' = Some (case overall_risk c of Some v \<Rightarrow> v | None \<Rightarrow> 0)) \<and>
   risk_scores (formatComp (c\<lparr>risk_scores := Some rs\<rparr>)) = Some rs \<and>
   (\<exists>d'. formatComparisonData (Some d) = Some d' \<and>
        comparisons d' =
          Some (case comparisons d of Some cs \<Rightarrow> map formatComp cs | None \<Rightarrow> []))"
  by (simp add: formatAnalysisData_def formatComp_def formatComparisonData_def or_num_zero)

text \<open>
  C3 as stated fails: a comparison entry that carries no score at all is given the
  scores 0, not 5, and no \<open>termination_risk\<close>.
\<close>

theorem missing_scores_midpoint_counterexample:
  "formatComparisonData
     (Some \<lparr>comparisons = Some
              [\<lparr>data_risk = None, user_rights_score = None, readability_score = None,
                overall_risk = None, termination_risk = None,
                risk_scores = None, risk_level = None,
                company = Some ''Acme'', source = None\<rparr>],
            insights = None, comparison_type = None\<rparr>)
   = Some \<lparr>comparisons = Some
              [\<lparr>data_risk = None, user_rights_score = None, readability_score = None,
                overall_risk = None, termination_risk = None,
                risk_scores = Some \<lparr>data_risk = Some 0, user_rights_score = Some 0,
                  readability_score = Some 0, overall_risk = Some 0,
                  termination_risk = None\<rparr>,
                risk_level = Some ''low'',
                company = Some ''Acme'', source = None\<rparr>],
            insights = None, comparison_type = None\<rparr>"
  by (simp add: formatComparisonData_def formatComp_def or_num_def js_or_def truthy_def
      getRiskLevel_num)

subsection \<open>Range of the scores read from a table\<close>

lemma parseFloat_nonneg: "0 \<le> parseFloat s"
  by (simp add: parseFloat_def Let_def split: list.split)

lemma extractScore_nonneg: "0 \<le> extractScore line"
  by (simp add: extractScore_def parseFloat_nonneg split: option.split)

lemma readLine_nonneg:
  assumes "\<forall>v. data_risk rs = Some v \<longrightarrow> 0 \<le> v"
    and "\<forall>v. user_rights_score rs = Some v \<longrightarrow> 0 \<le> v"
    and "\<forall>v. readability_score rs = Some v \<longrightarrow> 0 \<le> v"
    and "\<forall>v. overall_risk rs = Some v \<longrightarrow> 0 \<le> v"
  shows "(\<forall>v. data_risk (readLine rs line) = Some v \<longrightarrow> 0 \<le> v) \<and>
    (\<forall>v. user_rights_score (readLine rs line) = Some v \<longrightarrow> 0 \<le> v) \<and>
    (\<forall>v. readability_score (readLine rs line) = Some v \<longrightarrow> 0 \<le> v) \<and>
    (\<forall>v. overall_risk (readLine rs line) = Some v \<longrightarrow> 0 \<le> v)"
  using assms by (simp add: readLine_def extractScore_nonneg)

lemma foldl_readLine_nonneg:
  assumes "\<forall>v. data_risk rs = Some v \<longrightarrow> 0 \<le> v"
    and "\<forall>v. user_rights_score rs = Some v \<longrightarrow> 0 \<le> v"
    and "\<forall>v. readability_score rs = Some v \<longrightarrow> 0 \<le> v"
    and "\<forall>v. overall_risk rs = Some v \<longrightarrow> 0 \<le> v"
  shows "(\<forall>v. data_risk (foldl readLine rs ls) = Some v \<longrightarrow> 0 \<le> v) \<and>
    (\<forall>v. user_rights_score (foldl readLine rs ls) = Some v \<longrightarrow> 0 \<le> v) \<and>
    (\<forall>v. readability_score (foldl readLine rs ls) = Some v \<longrightarrow> 0 \<le> v) \<and>
    (\<forall>v. overall_risk (foldl readLine rs ls) = Some v \<longrightarrow> 0 \<le> v)"
  using assms
proof (induction ls arbitrary: rs)
  case Nil
  then show ?case by simp
next
  case (Cons l ls)
  from readLine_nonneg [OF Cons.prems, of l]
  have "(\<forall>v. data_risk (foldl readLine (readLine rs l) ls) = Some v \<longrightarrow> 0 \<le> v) \<and>
    (\<forall>v. user_rights_score (foldl readLine (readLine rs l) ls) = Some v \<longrightarrow> 0 \<le> v) \<and>
    (\<forall>v. readability_score (foldl readLine (readLine rs l) ls) = Some v \<longrightarrow> 0 \<le> v) \<and>
    (\<forall>v. overall_risk (foldl readLine (readLine rs l) ls) = Some v \<longrightarrow> 0 \<le> v)"
    by (intro Cons.IH) blast+
  then show ?case by simp
qed

lemma foldl_readLine_termination:
  "termination_risk (foldl readLine rs ls) = termination_risk rs"
  by (induction ls arbitrary: rs) (simp_all add: readLine_def)

text \<open>
  C8, as the code has it.  A score read from a line of a table is never negative, and
  so is every score of the \<open>risk_scores\<close> that \<open>parseTableData\<close> builds (it builds no
  \<open>termination_risk\<close>).  Nothing bounds a score from above.
\<close>

theorem parsed_scores_nonneg:
  "0 \<le> extractScore line \<and>
   (\<exists>rs. risk_scores (parseTableData s) = Some rs \<and>
      (\<forall>v. data_risk rs = Some v \<longrightarrow> 0 \<le> v) \<and>
      (\<forall>v. user_rights_score rs = Some v \<longrightarrow> 0 \<le> v) \<and>
      (\<forall>v. readability_score rs = Some v \<longrightarrow> 0 \<le> v) \<and>
      (\<forall>v. overall_risk rs = Some v \<longrightarrow> 0 \<le> v) \<and>
      termination_risk rs = None)"
proof -
  let ?z = "\<lparr>data_risk = None, user_rights_score = None, readability_score = None,
             overall_risk = None, termination_risk = None\<rparr>"
  have "(\<forall>v. data_risk (foldl readLine ?z ls) = Some v \<longrightarrow> 0 \<le> v) \<and>
    (\<forall>v. user_rights_score (foldl readLine ?z ls) = Some v \<longrightarrow> 0 \<le> v) \<and>
    (\<forall>v. readability_score (foldl readLine ?z ls) = Some v \<longrightarrow> 0 \<le> v) \<and>
    (\<forall>v. overall_risk (foldl readLine ?z ls) = Some v \<longrightarrow> 0 \<le> v)" for ls
    by (rule foldl_readLine_nonneg) simp_all
  then show ?thesis
    by (simp add: parseTableData_def Let_def extractScore_nonneg foldl_readLine_termination)
qed

theorem parsed_scores_nonneg_witness:
  "0 \<le> extractScore ''Data Risk: 7.5/10'' \<and>
   extractScore ''Data Risk: 7.5/10'' = 7.5 \<and>
   risk_scores (parseTableData (''Data Risk: 7.5/10'' @ [CHR 0x0A] @ ''Overall Risk: 8/10'')) =
     Some \<lparr>data_risk = Some 7.5, user_rights_score = None, readability_score = None,
           overall_risk = Some 8, termination_risk = None\<rparr>"
  using parsed_scores_nonneg
    [of "''Data Risk: 7.5/10''" "''Data Risk: 7.5/10'' @ [CHR 0x0A] @ ''Overall Risk: 8/10''"]
  by (simp add: parseTableData_def trim_def is_space_def readLine_def
      extractScore_def match_here_def is_digit_def parseFloat_def digits_val_def digit_val_def)

text \<open>
  C8 as stated fails: the line \<open>Overall Risk: 15/10\<close> gives the score 15, and the
  formatted analysis carries it.
\<close>

theorem parsed_score_range_counterexample:
  "extractScore ''Overall Risk: 15/10'' = 15 \<and>
   formatAnalysisData (Table ''Overall Risk: 15/10'') =
     Some \<lparr>data_risk = None, user_rights_score = None, readability_score = None,
           overall_risk = None, termination_risk = None,
           risk_scores = Some \<lparr>data_risk = None, user_rights_score = None,
             readability_score = None, overall_risk = Some 15, termination_risk = None\<rparr>,
           risk_level = Some ''high'',
           summary = Some ''Analysis completed successfully'',
           data_collection = Some [''Data collection practices analyzed''],
           user_rights = Some [''User rights assessment completed''],
           recommendations = Some [''Review the detailed risk scores above'']\<rparr> \<and>
   \<not> ((15::real) \<le> 10)"
  by (simp add: formatAnalysisData_def parseTableData_def trim_def is_space_def readLine_def
      extractScore_def match_here_def is_digit_def parseFloat_def digits_val_def digit_val_def
      getRiskLevel_num or_num_def)


subsection \<open>User rights and readability are inverted before bucketing\<close>






subsection \<open>Selecting companies\<close>

lemma toggleCompany_selected:
  "selectedCompanies (fst (toggleCompany i st)) =
     (if i \<in> set (selectedCompanies st) then filter (\<lambda>j. j \<noteq> i) (selectedCompanies st)
      else if length (selectedCompanies st) \<ge> 4 then selectedCompanies st
      else selectedCompanies st @ [i])"
  by (simp add: toggleCompany_def Let_def)

lemma toggleCompany_length:
  "length (selectedCompanies st) \<le> 4 \<Longrightarrow>
   length (selectedCompanies (fst (toggleCompany i st))) \<le> 4"
  by (simp add: toggleCompany_selected le_trans [OF length_filter_le])

lemma toggleAll_length:
  "length (selectedCompanies st) \<le> 4 \<Longrightarrow> length (selectedCompanies (toggleAll ids st)) \<le> 4"
  unfolding toggleAll_def
  by (induction ids arbitrary: st) (simp_all add: toggleCompany_length)

lemma runComparison_few:
  "length (selectedCompanies st) < 2 \<Longrightarrow>
   runComparison api st = (st, [Alert ''Please select at least 2 companies to compare''])"
  by (simp add: runComparison_def)

lemma runComparison_enough:
  "2 \<le> length (selectedCompanies st) \<Longrightarrow>
   snd (runComparison api st) = [PostCompare (companyNames st)]"
  by (simp add: runComparison_def Let_def split: response.split)

text \<open>
  C4.  With fewer than 2 companies selected, \<open>runComparison\<close> alerts and returns: the state
  is unchanged and no request is sent.  With at least 2 it sends the request.  A click on
  a company card never takes the selection beyond 4 entries, so after any sequence of
  clicks from the initial state the selection has at most 4 entries, and a request is
  only sent for 2 to 4 selected companies.
\<close>

theorem comparison_needs_two_to_four:
  "(length (selectedCompanies (st1 :: 'i comparison_state)) < 2 \<longrightarrow>
      runComparison api st1 =
        (st1, [Alert ''Please select at least 2 companies to compare''])) \<and>
   (2 \<le> length (selectedCompanies (st2 :: 'i comparison_state)) \<longrightarrow>
      snd (runComparison api st2) = [PostCompare (companyNames st2)]) \<and>
   (length (selectedCompanies (st3 :: 'i comparison_state)) \<le> 4 \<longrightarrow>
      length (selectedCompanies (fst (toggleCompany i st3))) \<le> 4) \<and>
   length (selectedCompanies (toggleAll (ids :: 'i list) initialState)) \<le> 4 \<and>
   (PostCompare ns \<in> set (snd (runComparison api (toggleAll ids initialState))) \<longrightarrow>
      2 \<le> length (selectedCompanies (toggleAll ids initialState)) \<and>
      length (selectedCompanies (toggleAll ids initialState)) \<le> 4)"
proof -
  have init: "length (selectedCompanies (toggleAll ids (initialState :: 'i comparison_state))) \<le> 4"
    by (rule toggleAll_length) (simp add: initialState_def)
  have post: "PostCompare ns \<in> set (snd (runComparison api s)) \<Longrightarrow>
      2 \<le> length (selectedCompanies s)" for s :: "'i comparison_state"
    using runComparison_few [of s api] by (cases "length (selectedCompanies s) < 2") auto
  show ?thesis
    using init runComparison_few [of st1 api] runComparison_enough [of st2 api]
      post [of "toggleAll ids initialState"] toggleCompany_length [of st3 i]
    by blast
qed

theorem comparison_needs_two_to_four_witness:
  "length (selectedCompanies (initialState\<lparr>selectedCompanies := [1::nat]\<rparr>)) < 2 \<and>
   runComparison (\<lambda>ns. Json None) (initialState\<lparr>selectedCompanies := [1::nat]\<rparr>) =
     (initialState\<lparr>selectedCompanies := [1]\<rparr>,
      [Alert ''Please select at least 2 companies to compare'']) \<and>
   2 \<le> length (selectedCompanies
     (initialState\<lparr>companies := [\<lparr>id_company = 1, name = Some ''Acme'', url = None\<rparr>,
                                   \<lparr>id_company = 2, name = Some ''Bolt'', url = None\<rparr>],
                    selectedCompanies := [2, 1::nat]\<rparr>)) \<and>
   snd (runComparison (\<lambda>ns. Json None)
     (initialState\<lparr>companies := [\<lparr>id_company = 1, name = Some ''Acme'', url = None\<rparr>,
                                   \<lparr>id_company = 2, name = Some ''Bolt'', url = None\<rparr>],
                    selectedCompanies := [2, 1::nat]\<rparr>)) =
     [PostCompare [Some ''Bolt'', Some ''Acme'']] \<and>
   selectedCompanies (fst (toggleCompany 5
     (initialState\<lparr>selectedCompanies := [1, 2, 3, 4::nat]\<rparr>))) = [1, 2, 3, 4] \<and>
   selectedCompanies (toggleAll [1, 2, 3, 4, 5, 2::nat] initialState) = [1, 3, 4] \<and>
   PostCompare [] \<in> set (snd (runComparison (\<lambda>ns. Json None)
     (toggleAll [1, 2, 3, 4, 5, 2::nat] initialState)))"
  using comparison_needs_two_to_four
    [where ?st1.0 = "initialState\<lparr>selectedCompanies := [1::nat]\<rparr>"
       and ?st2.0 = "initialState\<lparr>companies :=
                        [\<lparr>id_company = 1, name = Some ''Acme'', url = None\<rparr>,
                         \<lparr>id_company = 2, name = Some ''Bolt'', url = None\<rparr>],
                      selectedCompanies := [2, 1::nat]\<rparr>"
       and ?st3.0 = "initialState\<lparr>selectedCompanies := [1, 2, 3, 4::nat]\<rparr>"
       and i = 5 and ids = "[1, 2, 3, 4, 5, 2::nat]" and ns = "[]"
       and api = "\<lambda>ns. Json None"]
  by (simp add: initialState_def runComparison_def companyNames_def toggleAll_def
      toggleCompany_def)

text \<open>
  C9.  A click on a company card keeps the selection free of duplicates and at most 4
  long: a selected id is removed, a new id is appended when fewer than 4 are selected,
  and with 4 selected a new id leaves the state as it is.
\<close>

theorem toggleCompany_invariant:
  "distinct (selectedCompanies st) \<and> length (selectedCompanies st) \<le> 4 \<Longrightarrow>
   distinct (selectedCompanies (fst (toggleCompany i st))) \<and>
   length (selectedCompanies (fst (toggleCompany i st))) \<le> 4 \<and>
   (i \<in> set (selectedCompanies st) \<longrightarrow>
      selectedCompanies (fst (toggleCompany i st)) = filter (\<lambda>j. j \<noteq> i) (selectedCompanies st) \<and>
      i \<notin> set (selectedCompanies (fst (toggleCompany i st)))) \<and>
   (i \<notin> set (selectedCompanies st) \<and> length (selectedCompanies st) < 4 \<longrightarrow>
      selectedCompanies (fst (toggleCompany i st)) = selectedCompanies st @ [i]) \<and>
   (i \<notin> set (selectedCompanies st) \<and> length (selectedCompanies st) \<ge> 4 \<longrightarrow>
      fst (toggleCompany i st) = st)"
proof -
  assume inv: "distinct (selectedCompanies st) \<and> length (selectedCompanies st) \<le> 4"
  then have len: "length (selectedCompanies (fst (toggleCompany i st))) \<le> 4"
    by (simp add: toggleCompany_length)
  from inv have dis: "distinct (selectedCompanies (fst (toggleCompany i st)))"
    by (simp add: toggleCompany_selected)
  have unch: "i \<notin> set (selectedCompanies st) \<and> length (selectedCompanies st) \<ge> 4 \<longrightarrow>
      fst (toggleCompany i st) = st"
    by (simp add: toggleCompany_def Let_def)
  from len dis unch show ?thesis
    by (simp add: toggleCompany_selected)
qed

theorem toggleCompany_invariant_witness:
  "distinct (selectedCompanies (initialState\<lparr>selectedCompanies := [1, 2, 3::nat]\<rparr>)) \<and>
   length (selectedCompanies (initialState\<lparr>selectedCompanies := [1, 2, 3::nat]\<rparr>)) \<le> 4 \<and>
   selectedCompanies (fst (toggleCompany 2 (initialState\<lparr>selectedCompanies := [1, 2, 3::nat]\<rparr>)))
     = [1, 3] \<and>
   selectedCompanies (fst (toggleCompany 7 (initialState\<lparr>selectedCompanies := [1, 2, 3::nat]\<rparr>)))
     = [1, 2, 3, 7] \<and>
   distinct (selectedCompanies (initialState\<lparr>selectedCompanies := [1, 2, 3, 4::nat]\<rparr>)) \<and>
   length (selectedCompanies (initialState\<lparr>selectedCompanies := [1, 2, 3, 4::nat]\<rparr>)) \<le> 4 \<and>
   fst (toggleCompany 7 (initialState\<lparr>selectedCompanies := [1, 2, 3, 4::nat]\<rparr>))
     = initialState\<lparr>selectedCompanies := [1, 2, 3, 4]\<rparr>"
  using toggleCompany_invariant [of "initialState\<lparr>selectedCompanies := [1, 2, 3::nat]\<rparr>" 2]
    toggleCompany_invariant [of "initialState\<lparr>selectedCompanies := [1, 2, 3::nat]\<rparr>" 7]
    toggleCompany_invariant [of "initialState\<lparr>selectedCompanies := [1, 2, 3, 4::nat]\<rparr>" 7]
  by (simp add: initialState_def)

subsection \<open>Toggling a data concern twice\<close>

lemma filter_absent: "c \<notin> set xs \<Longrightarrow> filter (\<lambda>x. x \<noteq> c) xs = xs"
  by (induction xs) auto

lemma mset_filter_present:
  "c \<in> set xs \<Longrightarrow> distinct xs \<Longrightarrow> mset (filter (\<lambda>x. x \<noteq> c) xs) + {#c#} = mset xs"
  by (induction xs) (auto simp: filter_absent simp del: mset_filter)

text \<open>
  C10, as the code has it.  On a profile whose concerns have no duplicates, toggling a
  tag twice gives a list with the same elements as the original, each once (a
  permutation of it).  When the tag was not in the list the profile is the original one;
  when it was, the tag has moved to the end of the list.
\<close>

theorem toggleConcern_twice:
  "distinct (dataConcerns p) \<Longrightarrow>
   set (dataConcerns (toggleConcern c (toggleConcern c p))) = set (dataConcerns p) \<and>
   mset (dataConcerns (toggleConcern c (toggleConcern c p))) = mset (dataConcerns p) \<and>
   distinct (dataConcerns (toggleConcern c (toggleConcern c p))) \<and>
   (c \<notin> set (dataConcerns p) \<longrightarrow> toggleConcern c (toggleConcern c p) = p) \<and>
   (c \<in> set (dataConcerns p) \<longrightarrow>
      dataConcerns (toggleConcern c (toggleConcern c p)) =
        filter (\<lambda>x. x \<noteq> c) (dataConcerns p) @ [c]) \<and>
   riskTolerance (toggleConcern c (toggleConcern c p)) = riskTolerance p \<and>
   location (toggleConcern c (toggleConcern c p)) = location p"
proof -
  assume d: "distinct (dataConcerns p)"
  show ?thesis
  proof (cases "c \<in> set (dataConcerns p)")
    case True
    then have e: "dataConcerns (toggleConcern c (toggleConcern c p)) =
        filter (\<lambda>x. x \<noteq> c) (dataConcerns p) @ [c]"
      by (simp add: toggleConcern_def)
    from True d mset_filter_present [of c "dataConcerns p"] show ?thesis
      by (auto simp: e toggleConcern_def)
  next
    case False
    then have "toggleConcern c (toggleConcern c p) = p"
      by (simp add: toggleConcern_def filter_absent)
    with False d show ?thesis
      by simp
  qed
qed

theorem toggleConcern_twice_witness:
  "distinct (dataConcerns defaultProfile) \<and>
   dataConcerns (toggleConcern ''data_collection'' (toggleConcern ''data_collection'' defaultProfile))
     = [''data_sharing'', ''data_collection''] \<and>
   toggleConcern ''cookies'' (toggleConcern ''cookies'' defaultProfile) = defaultProfile"
  using toggleConcern_twice [of defaultProfile "''data_collection''"]
    toggleConcern_twice [of defaultProfile "''cookies''"]
  by (simp add: defaultProfile_def)

text \<open>
  C10 as stated fails: on the profile App.js starts with, toggling \<open>data_collection\<close>
  twice gives a list that differs from the original one.
\<close>

theorem toggleConcern_twice_counterexample:
  "dataConcerns (toggleConcern ''data_collection'' (toggleConcern ''data_collection'' defaultProfile))
     = [''data_sharing'', ''data_collection''] \<and>
   dataConcerns defaultProfile = [''data_collection'', ''data_sharing''] \<and>
   distinct (dataConcerns defaultProfile) \<and>
   dataConcerns (toggleConcern ''data_collection'' (toggleConcern ''data_collection'' defaultProfile))
     \<noteq> dataConcerns defaultProfile"
  by (simp add: toggleConcern_def defaultProfile_def)

end
